theory Spec2Isabelle
  imports Complex_Main
begin

section \<open>HealthKit data processor: data model\<close>

text \<open>
  Embedding of \<^verbatim>\<open>healthkit_data_processor.py\<close> (class \<^verbatim>\<open>HealthKitDataProcessor\<close>).

  Conventions of the model:
  \<^item> a pandas Timestamp is an \<open>int\<close> (seconds); \<^verbatim>\<open>NaT\<close>, which pandas returns for the
    maximum of an empty datetime column, is \<open>None\<close> of \<open>int option\<close>;
    \<^verbatim>\<open>timedelta(hours=h)\<close> is \<open>3600 * h\<close>;
  \<^item> a float is a \<open>real\<close>: rounding, overflow and NaN inputs are outside the model;
    where the code itself can produce NaN or infinity from finite inputs (a division by
    zero, a negative base of a fractional power) the branch is written out;
  \<^item> a DataFrame is the list of its rows, a row a record of its columns;
  \<^item> \<^verbatim>\<open>raise\<close> is \<open>Inl\<close> of a sum type; \<^verbatim>\<open>print\<close> is not modelled.
\<close>

datatype py_error = ValueError string | IndexError

record hr_sample =
  startDate :: int
  endDate :: int
  value' :: real
  unit' :: string

record hrv_sample = hr_sample +
  type' :: string

record feature_row =
  timestamp :: "int option"
  mean_heart_rate :: real
  std_heart_rate :: real
  pnn50 :: real
  data_quality_score :: real
  sample_count_hr :: nat
  sample_count_hrv :: nat

record result_row = feature_row +
  prediction :: int
  normal_probability :: real
  irregular_probability :: real
  confidence :: real
  rhythm_classification :: string

text \<open>
  The trained model pipeline is opaque. It is a pair of functions on one row of the
  feature matrix \<^verbatim>\<open>X\<close> (columns \<^verbatim>\<open>mean_heart_rate, std_heart_rate, pnn50\<close>):
  the class of the row, and its two class probabilities
  (\<^verbatim>\<open>probabilities[:, 0]\<close>, \<^verbatim>\<open>probabilities[:, 1]\<close>).
\<close>

type_synonym model_input = "real \<times> real \<times> real"

record model_pipeline =
  predict :: "model_input \<Rightarrow> int"
  predict_proba :: "model_input \<Rightarrow> real \<times> real"

datatype model_call = PredictCall "model_input list" | PredictProbaCall "model_input list"

record heart_rate_metrics =
  hrm_mean_heart_rate :: real
  hrm_heart_rate_variability :: real
  hrm_pnn50 :: real

record data_quality =
  dq_quality_score :: real
  dq_heart_rate_samples :: nat
  dq_hrv_samples :: nat

record report =
  report_timestamp :: "int option"
  report_rhythm_classification :: string
  report_confidence_score :: real
  report_irregular_probability :: real
  report_heart_rate_metrics :: heart_rate_metrics
  report_data_quality :: data_quality
  report_clinical_interpretation :: string
  report_recommendations :: "string list"

section \<open>Formatting numbers\<close>

text \<open>\<^verbatim>\<open>str(n)\<close> of a non-negative integer: its decimal digits.\<close>

definition digit_char :: "nat \<Rightarrow> char" where
  "digit_char d = ''0123456789'' ! d"

fun str_nat :: "nat \<Rightarrow> string" where
  "str_nat n = (if n < 10 then [digit_char n] else str_nat (n div 10) @ [digit_char (n mod 10)])"

declare str_nat.simps [simp del]

definition str_int :: "int \<Rightarrow> string" where
  "str_int i = (if i < 0 then ''-'' @ str_nat (nat (- i)) else str_nat (nat i))"

text \<open>
  The format \<^verbatim>\<open>{x:.0f}\<close>: the nearest integer, a tie going to the even one, with the
  sign of \<open>x\<close> kept (Python prints \<^verbatim>\<open>-0\<close> for \<open>-0.4\<close>).
\<close>

definition round_half_even :: "real \<Rightarrow> int" where
  "round_half_even x =
     (let f = \<lfloor>x\<rfloor>; d = x - of_int f
      in if d < 1/2 then f else if 1/2 < d then f + 1 else if even f then f else f + 1)"

definition format_0f :: "real \<Rightarrow> string" where
  "format_0f x =
     (if x < 0 then ''-'' @ str_nat (nat (round_half_even (- x)))
      else str_nat (nat (round_half_even x)))"

section \<open>Column statistics\<close>

text \<open>
  \<^verbatim>\<open>Series.mean()\<close> and \<^verbatim>\<open>Series.std()\<close> (pandas: the sample standard deviation,
  \<^verbatim>\<open>ddof=1\<close>). pandas returns NaN for the mean of no value and for the deviation of
  fewer than two; every call of the source is behind a guard on the length
  (\<open>10 \<le> n\<close>, \<open>0 < n\<close> or \<open>1 < n\<close>), so the functions are read on those lengths only.
\<close>

definition mean :: "real list \<Rightarrow> real" where
  "mean xs = sum_list xs / real (length xs)"

definition std :: "real list \<Rightarrow> real" where
  "std xs = sqrt (sum_list (map (\<lambda>x. (x - mean xs)\<^sup>2) xs) / real (length xs - 1))"

text \<open>
  \<^verbatim>\<open>Series.max()\<close> of a datetime column (\<^verbatim>\<open>NaT\<close> when it is empty), the comparison
  of two timestamps (false when either is \<^verbatim>\<open>NaT\<close>), Python's \<^verbatim>\<open>max(a, b)\<close> (it
  returns \<open>a\<close> unless \<open>b > a\<close>) and \<^verbatim>\<open>t - timedelta(hours=h)\<close>.
\<close>

fun series_max :: "int list \<Rightarrow> int option" where
  "series_max [] = None"
| "series_max (x # xs) = Some (fold max xs x)"

fun ts_less :: "int option \<Rightarrow> int option \<Rightarrow> bool" where
  "ts_less (Some a) (Some b) = (a < b)"
| "ts_less _ _ = False"

fun ts_le :: "int option \<Rightarrow> int option \<Rightarrow> bool" where
  "ts_le (Some a) (Some b) = (a \<le> b)"
| "ts_le _ _ = False"

definition py_max :: "int option \<Rightarrow> int option \<Rightarrow> int option" where
  "py_max a b = (if ts_less a b then b else a)"

definition minus_hours :: "int option \<Rightarrow> int \<Rightarrow> int option" where
  "minus_hours t h = map_option (\<lambda>s. s - 3600 * h) t"

section \<open>Validation and ingestion\<close>

definition validate_heart_rate_data :: "hr_sample list \<Rightarrow> hr_sample list" where
  "validate_heart_rate_data df = filter (\<lambda>s. 30 \<le> value' s \<and> value' s \<le> 250) df"

definition validate_hrv_data :: "hrv_sample list \<Rightarrow> hrv_sample list" where
  "validate_hrv_data df = filter (\<lambda>s. 1 \<le> value' s \<and> value' s \<le> 200) df"

definition process_healthkit_heart_rate :: "hr_sample list \<Rightarrow> py_error + hr_sample list" where
  "process_healthkit_heart_rate heart_rate_data =
     (if heart_rate_data = [] then Inl (ValueError ''No heart rate data provided'')
      else Inr (sort_key startDate (validate_heart_rate_data heart_rate_data)))"

definition process_healthkit_hrv_data :: "hrv_sample list \<Rightarrow> py_error + hrv_sample list" where
  "process_healthkit_hrv_data hrv_data =
     (if hrv_data = [] then Inl (ValueError ''No HRV data provided'')
      else Inr (sort_key startDate (validate_hrv_data hrv_data)))"

section \<open>Feature extraction\<close>

definition estimate_pnn50_from_rmssd :: "real \<Rightarrow> real" where
  \<comment> \<open>numpy gives NaN for a fractional power of a negative base, and Python's
      \<^verbatim>\<open>max(0.0, nan)\<close> is \<open>0.0\<close>\<close>
  "estimate_pnn50_from_rmssd rmssd_value =
     (if rmssd_value / 150 < 0 then min 0.6 0
      else min 0.6 (max 0 ((rmssd_value / 150) powr 1.5)))"

definition estimate_pnn50_from_hr_std :: "real \<Rightarrow> real" where
  "estimate_pnn50_from_hr_std hr_std = min 0.4 (max 0 (hr_std / 50))"

text \<open>
  The coefficient of variation \<^verbatim>\<open>std() / mean()\<close> of the data-quality score. numpy
  does not raise on a zero divisor: the quotient is infinite or NaN, and both fail the
  two comparisons that follow; that outcome is \<open>None\<close>.
\<close>

definition coefficient_of_variation :: "real list \<Rightarrow> real option" where
  "coefficient_of_variation vs = (if mean vs = 0 then None else Some (std vs / mean vs))"

definition calculate_data_quality_score :: "hr_sample list \<Rightarrow> hrv_sample list \<Rightarrow> real" where
  "calculate_data_quality_score hr_df hrv_df =
     (let score = 0;
          score = (if 50 \<le> length hr_df then score + 0.4
                   else if 20 \<le> length hr_df then score + 0.2 else score);
          score = (if 5 \<le> length hrv_df then score + 0.3
                   else if 1 \<le> length hrv_df then score + 0.1 else score);
          score = (if 1 < length hr_df then
                     (case coefficient_of_variation (map value' hr_df) of
                        None \<Rightarrow> score
                      | Some cv \<Rightarrow> if cv < 0.3 then score + 0.3
                                  else if cv < 0.5 then score + 0.1 else score)
                   else score)
      in min 1.0 score)"

text \<open>Lines 164 to 182 of \<^verbatim>\<open>extract_features\<close>: the reference time and the two windows.\<close>

definition latest_time :: "hr_sample list \<Rightarrow> hrv_sample list \<Rightarrow> int option" where
  "latest_time heart_rate_df hrv_df =
     py_max (series_max (map startDate heart_rate_df)) (series_max (map startDate hrv_df))"

definition start_time :: "hr_sample list \<Rightarrow> hrv_sample list \<Rightarrow> int \<Rightarrow> int option" where
  "start_time heart_rate_df hrv_df time_window_hours =
     minus_hours (latest_time heart_rate_df hrv_df) time_window_hours"

definition in_window :: "int option \<Rightarrow> int option \<Rightarrow> int \<Rightarrow> bool" where
  "in_window start latest t = (ts_le start (Some t) \<and> ts_le (Some t) latest)"

definition hr_window :: "hr_sample list \<Rightarrow> hrv_sample list \<Rightarrow> int \<Rightarrow> hr_sample list" where
  "hr_window heart_rate_df hrv_df time_window_hours =
     filter (\<lambda>s. in_window (start_time heart_rate_df hrv_df time_window_hours)
                            (latest_time heart_rate_df hrv_df) (startDate s)) heart_rate_df"

definition hrv_window :: "hr_sample list \<Rightarrow> hrv_sample list \<Rightarrow> int \<Rightarrow> hrv_sample list" where
  "hrv_window heart_rate_df hrv_df time_window_hours =
     filter (\<lambda>s. in_window (start_time heart_rate_df hrv_df time_window_hours)
                            (latest_time heart_rate_df hrv_df) (startDate s)) hrv_df"

definition insufficient_message :: "int \<Rightarrow> nat \<Rightarrow> string" where
  "insufficient_message time_window_hours n =
     ''Insufficient heart rate data in '' @ str_int time_window_hours @ ''h window: ''
       @ str_nat n @ '' samples''"

definition extract_features ::
  "hr_sample list \<Rightarrow> hrv_sample list \<Rightarrow> int \<Rightarrow> py_error + feature_row list" where
  "extract_features heart_rate_df hrv_df time_window_hours =
     (let hr_w = hr_window heart_rate_df hrv_df time_window_hours;
          hrv_w = hrv_window heart_rate_df hrv_df time_window_hours
      in if length hr_w < 10
         then Inl (ValueError (insufficient_message time_window_hours (length hr_w)))
         else
           let mean_hr = mean (map value' hr_w);
               std_hr = std (map value' hr_w);
               rmssd_data = filter (\<lambda>s. type' s = ''RMSSD'') hrv_w;
               p = (if 0 < length rmssd_data
                    then estimate_pnn50_from_rmssd (mean (map value' rmssd_data))
                    else estimate_pnn50_from_hr_std std_hr)
           in Inr [\<lparr> timestamp = latest_time heart_rate_df hrv_df,
                     mean_heart_rate = mean_hr,
                     std_heart_rate = std_hr,
                     pnn50 = p,
                     data_quality_score = calculate_data_quality_score hr_w hrv_w,
                     sample_count_hr = length hr_w,
                     sample_count_hrv = length hrv_w \<rparr>])"

section \<open>Prediction\<close>

text \<open>
  \<^verbatim>\<open>predict_rhythm\<close> returns the result frame; the second component of the model's
  value is the list of calls made to the model pipeline, in order.
\<close>

definition model_features :: "'a feature_row_scheme \<Rightarrow> model_input" where
  "model_features r = (mean_heart_rate r, std_heart_rate r, pnn50 r)"

definition result_of :: "model_pipeline \<Rightarrow> feature_row \<Rightarrow> result_row" where
  "result_of m r =
     (let p = predict m (model_features r);
          probabilities = predict_proba m (model_features r)
      in feature_row.extend r
           (result_row.fields p (fst probabilities) (snd probabilities)
              (max (fst probabilities) (snd probabilities))
              (if p = 0 then ''Normal'' else ''Irregular'')))"

definition predict_rhythm ::
  "model_pipeline option \<Rightarrow> feature_row list \<Rightarrow> (py_error + result_row list) \<times> model_call list" where
  "predict_rhythm model features_df =
     (case model of
        None \<Rightarrow> (Inl (ValueError ''Model not loaded''), [])
      | Some m \<Rightarrow>
          (let X = map model_features features_df
           in (Inr (map (result_of m) features_df), [PredictCall X, PredictProbaCall X])))"

section \<open>Report\<close>

definition generate_clinical_interpretation :: "result_row \<Rightarrow> string" where
  "generate_clinical_interpretation result =
     (let rhythm = rhythm_classification result;
          conf = confidence result;
          mean_hr = mean_heart_rate result
      in if rhythm = ''Normal'' then
           if 0.8 < conf
           then ''High confidence normal rhythm detected. Heart rate '' @ format_0f mean_hr
                  @ '' BPM within normal range.''
           else ''Likely normal rhythm, but consider additional monitoring. Heart rate ''
                  @ format_0f mean_hr @ '' BPM.''
         else
           if 0.8 < conf
           then ''High confidence irregular rhythm detected. Heart rate '' @ format_0f mean_hr
                  @ '' BPM. Recommend medical evaluation.''
           else ''Possible irregular rhythm detected. Heart rate '' @ format_0f mean_hr
                  @ '' BPM. Consider further assessment.'')"

definition generate_recommendations :: "result_row \<Rightarrow> string list" where
  "generate_recommendations result =
     (let recommendations = [];
          rhythm = rhythm_classification result;
          conf = confidence result;
          dq = data_quality_score result;
          recommendations =
            (if rhythm = ''Irregular'' then
               (let recommendations = recommendations @
                      [''Consult with a healthcare provider about irregular rhythm detection''];
                    recommendations = recommendations @
                      [''Continue regular monitoring with Apple Watch'']
                in if conf < 0.7
                   then recommendations @ [''Consider additional ECG recordings for confirmation'']
                   else recommendations)
             else recommendations);
          recommendations =
            (if dq < 0.5 then
               (recommendations @ [''Improve data quality by ensuring proper Apple Watch fit''])
                 @ [''Take readings during rest periods for better accuracy'']
             else recommendations);
          recommendations = recommendations @
            [''Maintain regular physical activity as recommended by your doctor''];
          recommendations = recommendations @ [''Continue monitoring trends over time'']
      in recommendations)"

text \<open>
  \<^verbatim>\<open>results_df.iloc[-1]\<close> raises IndexError on an empty frame. The report keeps the
  timestamp itself (its ISO rendering is not modelled).
\<close>

definition generate_health_report :: "result_row list \<Rightarrow> py_error + report" where
  "generate_health_report results_df =
     (if results_df = [] then Inl IndexError
      else
        let latest_result = last results_df
        in Inr \<lparr> report_timestamp = timestamp latest_result,
                  report_rhythm_classification = rhythm_classification latest_result,
                  report_confidence_score = confidence latest_result,
                  report_irregular_probability = irregular_probability latest_result,
                  report_heart_rate_metrics =
                    \<lparr> hrm_mean_heart_rate = mean_heart_rate latest_result,
                      hrm_heart_rate_variability = std_heart_rate latest_result,
                      hrm_pnn50 = pnn50 latest_result \<rparr>,
                  report_data_quality =
                    \<lparr> dq_quality_score = data_quality_score latest_result,
                      dq_heart_rate_samples = sample_count_hr latest_result,
                      dq_hrv_samples = sample_count_hrv latest_result \<rparr>,
                  report_clinical_interpretation = generate_clinical_interpretation latest_result,
                  report_recommendations = generate_recommendations latest_result \<rparr>)"

section \<open>The pipeline\<close>

text \<open>
  The sequence of calls of \<^verbatim>\<open>process_sample_healthkit_data\<close>: ingest both lists,
  extract the features, predict, report. An exception of a stage ends the run; the second
  component is the list of calls the run made to the model pipeline.
\<close>

definition pipeline ::
  "model_pipeline option \<Rightarrow> hr_sample list \<Rightarrow> hrv_sample list \<Rightarrow> int
     \<Rightarrow> (py_error + report) \<times> model_call list" where
  "pipeline model heart_rate_data hrv_data time_window_hours =
     (case process_healthkit_heart_rate heart_rate_data of
        Inl e \<Rightarrow> (Inl e, [])
      | Inr hr_df \<Rightarrow>
          (case process_healthkit_hrv_data hrv_data of
             Inl e \<Rightarrow> (Inl e, [])
           | Inr hrv_df \<Rightarrow>
               (case extract_features hr_df hrv_df time_window_hours of
                  Inl e \<Rightarrow> (Inl e, [])
                | Inr features_df \<Rightarrow>
                    (case predict_rhythm model features_df of
                       (Inl e, calls) \<Rightarrow> (Inl e, calls)
                     | (Inr results_df, calls) \<Rightarrow> (generate_health_report results_df, calls)))))"

section \<open>Example inputs\<close>

text \<open>A model pipeline that calls a row irregular when its mean rate exceeds 80.\<close>

definition example_model :: model_pipeline where
  "example_model = \<lparr> predict = (\<lambda>x. if 80 < fst x then 1 else 0),
                     predict_proba = (\<lambda>x. if 80 < fst x then (3/10, 7/10) else (4/5, 1/5)) \<rparr>"

definition example_features :: feature_row where
  "example_features = \<lparr> timestamp = Some 7200, mean_heart_rate = 95, std_heart_rate = 18.5,
      pnn50 = 0.37, data_quality_score = 0.4, sample_count_hr = 12, sample_count_hrv = 0 \<rparr>"

definition example_features_other :: feature_row where
  "example_features_other = \<lparr> timestamp = Some 90000, mean_heart_rate = 95, std_heart_rate = 18.5,
      pnn50 = 0.37, data_quality_score = 1, sample_count_hr = 60, sample_count_hrv = 7 \<rparr>"

definition boundary_result :: result_row where
  "boundary_result = \<lparr> timestamp = Some 7200, mean_heart_rate = 72, std_heart_rate = 4,
      pnn50 = 0.08, data_quality_score = 0.7, sample_count_hr = 60, sample_count_hrv = 7,
      prediction = 0, normal_probability = 0.8, irregular_probability = 0.2, confidence = 0.8,
      rhythm_classification = ''Normal'' \<rparr>"

text \<open>
  The four templates of the interpretation as a table, each as the text before and the text
  after the rate: the rule stated for the report, to compare with the source's function.
\<close>

definition interpretation_template :: "bool \<Rightarrow> bool \<Rightarrow> string \<times> string" where
  "interpretation_template normal high =
     (if normal then
        if high then (''High confidence normal rhythm detected. Heart rate '',
                      '' BPM within normal range.'')
        else (''Likely normal rhythm, but consider additional monitoring. Heart rate '', '' BPM.'')
      else
        if high then (''High confidence irregular rhythm detected. Heart rate '',
                      '' BPM. Recommend medical evaluation.'')
        else (''Possible irregular rhythm detected. Heart rate '',
              '' BPM. Consider further assessment.''))"

text \<open>Samples at a given start time, and small frames for the window.\<close>

definition hr_at :: "int \<Rightarrow> real \<Rightarrow> hr_sample" where
  "hr_at t v = \<lparr> startDate = t, endDate = t + 60, value' = v, unit' = ''count/min'' \<rparr>"

definition hrv_at :: "int \<Rightarrow> real \<Rightarrow> string \<Rightarrow> hrv_sample" where
  "hrv_at t v k = \<lparr> startDate = t, endDate = t + 300, value' = v, unit' = ''ms'', type' = k \<rparr>"

definition long_hr :: "hr_sample list" where
  "long_hr = [hr_at 0 70,
              \<lparr> startDate = 4000, endDate = 8000, value' = 72, unit' = ''count/min'' \<rparr>]"

definition tie_hr :: "hr_sample list" where
  "tie_hr = [hr_at 0 70, hr_at 1800 71, hr_at 3600 72]"

definition tie_hrv :: "hrv_sample list" where
  "tie_hrv = [hrv_at (- 100) 40 ''RMSSD'', hrv_at 0 41 ''SDNN'']"

definition short_hr :: "hr_sample list" where
  "short_hr = [hr_at 0 70, hr_at 60 71, hr_at 120 72, hr_at 180 73,
               hr_at 240 72, hr_at 300 71, hr_at 360 70, hr_at 420 69]"

definition steady_hr :: "hr_sample list" where
  "steady_hr = [hr_at 0 68, hr_at 60 68, hr_at 120 68, hr_at 180 68, hr_at 240 68, hr_at 300 68,
                hr_at 360 68, hr_at 420 68, hr_at 480 68, hr_at 540 68, hr_at 600 68, hr_at 660 68]"

definition out_of_range_hr :: "hr_sample list" where
  "out_of_range_hr = [hr_at 0 20, hr_at 60 300]"

text \<open>Whether the text \<open>w\<close> occurs in the text \<open>s\<close>.\<close>

fun mentions :: "string \<Rightarrow> string \<Rightarrow> bool" where
  "mentions w [] = (w = [])"
| "mentions w (c # cs) = (take (length w) (c # cs) = w \<or> mentions w cs)"

definition swinging_hr :: "hr_sample list" where
  "swinging_hr = [hr_at 0 30, hr_at 60 250]"

section \<open>Properties of prediction\<close>

lemma result_of_columns:
  "prediction (result_of m r) = predict m (model_features r)"
  "normal_probability (result_of m r) = fst (predict_proba m (model_features r))"
  "irregular_probability (result_of m r) = snd (predict_proba m (model_features r))"
  "confidence (result_of m r) =
     max (fst (predict_proba m (model_features r))) (snd (predict_proba m (model_features r)))"
  "rhythm_classification (result_of m r) =
     (if predict m (model_features r) = 0 then ''Normal'' else ''Irregular'')"
  by (simp_all add: result_of_def Let_def feature_row.defs result_row.defs)

lemma result_of_features:
  "timestamp (result_of m r) = timestamp r"
  "mean_heart_rate (result_of m r) = mean_heart_rate r"
  "std_heart_rate (result_of m r) = std_heart_rate r"
  "pnn50 (result_of m r) = pnn50 r"
  "data_quality_score (result_of m r) = data_quality_score r"
  "sample_count_hr (result_of m r) = sample_count_hr r"
  "sample_count_hrv (result_of m r) = sample_count_hrv r"
  by (simp_all add: result_of_def Let_def feature_row.defs result_row.defs)

lemma predict_rhythm_Inr:
  "predict_rhythm model features_df = (Inr results_df, calls) \<Longrightarrow>
     \<exists>m. model = Some m \<and> results_df = map (result_of m) features_df
       \<and> calls = [PredictCall (map model_features features_df),
                   PredictProbaCall (map model_features features_df)]"
  by (auto simp: predict_rhythm_def Let_def split: option.splits)

text \<open>
  C9. When the two class probabilities of every row are non-negative and sum to 1, the
  confidence of every result row, the maximum of the two, is at least 0.5, and so is the
  confidence score of a report generated from the results.
\<close>

theorem confidence_at_least_half:
  assumes probs: "\<forall>f \<in> set features_df.
            0 \<le> fst (predict_proba m (model_features f)) \<and>
            0 \<le> snd (predict_proba m (model_features f)) \<and>
            fst (predict_proba m (model_features f)) + snd (predict_proba m (model_features f)) = 1"
    and run: "predict_rhythm (Some m) features_df = (Inr results_df, calls)"
  shows "(\<forall>r \<in> set results_df.
            confidence r = max (normal_probability r) (irregular_probability r) \<and> 1/2 \<le> confidence r)
         \<and> (\<forall>rep. generate_health_report results_df = Inr rep \<longrightarrow> 1/2 \<le> report_confidence_score rep)"
proof -
  from run have rs: "results_df = map (result_of m) features_df"
    by (auto dest: predict_rhythm_Inr)
  have rows: "\<forall>r \<in> set results_df.
            confidence r = max (normal_probability r) (irregular_probability r) \<and> 1/2 \<le> confidence r"
  proof
    fix r assume "r \<in> set results_df"
    then obtain f where f: "f \<in> set features_df" and r: "r = result_of m f"
      using rs by auto
    from probs f have "0 \<le> fst (predict_proba m (model_features f))"
      "0 \<le> snd (predict_proba m (model_features f))"
      "fst (predict_proba m (model_features f)) + snd (predict_proba m (model_features f)) = 1"
      by auto
    then show "confidence r = max (normal_probability r) (irregular_probability r) \<and> 1/2 \<le> confidence r"
      unfolding r result_of_columns by linarith
  qed
  have "1/2 \<le> report_confidence_score rep" if rep: "generate_health_report results_df = Inr rep" for rep
  proof -
    from rep have ne: "results_df \<noteq> []" and c: "report_confidence_score rep = confidence (last results_df)"
      by (auto simp: generate_health_report_def Let_def split: if_splits)
    from ne have "last results_df \<in> set results_df" by simp
    with rows have "1/2 \<le> confidence (last results_df)" by blast
    with c show ?thesis by simp
  qed
  with rows show ?thesis by blast
qed

theorem confidence_at_least_half_witness:
  "predict_rhythm (Some example_model) [example_features]
     = (Inr [result_of example_model example_features],
        [PredictCall [(95, 18.5, 0.37)], PredictProbaCall [(95, 18.5, 0.37)]])
   \<and> confidence (result_of example_model example_features) = 7/10
   \<and> 1/2 \<le> confidence (result_of example_model example_features)
   \<and> (\<exists>rep. generate_health_report [result_of example_model example_features] = Inr rep
        \<and> 1/2 \<le> report_confidence_score rep)"
proof -
  have run: "predict_rhythm (Some example_model) [example_features]
     = (Inr [result_of example_model example_features],
        [PredictCall [(95, 18.5, 0.37)], PredictProbaCall [(95, 18.5, 0.37)]])"
    by (simp add: predict_rhythm_def Let_def model_features_def example_features_def)
  have probs: "\<forall>f \<in> set [example_features].
            0 \<le> fst (predict_proba example_model (model_features f)) \<and>
            0 \<le> snd (predict_proba example_model (model_features f)) \<and>
            fst (predict_proba example_model (model_features f))
              + snd (predict_proba example_model (model_features f)) = 1"
    by (simp add: example_model_def model_features_def example_features_def)
  have c: "confidence (result_of example_model example_features) = 7/10"
    by (simp add: result_of_columns example_model_def model_features_def example_features_def)
  have "\<exists>rep. generate_health_report [result_of example_model example_features] = Inr rep"
    by (simp add: generate_health_report_def Let_def)
  with confidence_at_least_half [OF probs run] run c show ?thesis by auto
qed

text \<open>
  C10. Two feature frames that agree on the columns \<^verbatim>\<open>mean_heart_rate\<close>,
  \<^verbatim>\<open>std_heart_rate\<close> and \<^verbatim>\<open>pnn50\<close>, whatever their other columns, get from the
  same model pipeline the same predictions, probabilities, confidences and labels, and
  make the same calls to the model.
\<close>

theorem prediction_depends_on_model_features_only:
  assumes same: "map mean_heart_rate fs1 = map mean_heart_rate fs2"
      "map std_heart_rate fs1 = map std_heart_rate fs2"
      "map pnn50 fs1 = map pnn50 fs2"
    and run1: "predict_rhythm model fs1 = (Inr rs1, calls1)"
    and run2: "predict_rhythm model fs2 = (Inr rs2, calls2)"
  shows "map prediction rs1 = map prediction rs2
       \<and> map normal_probability rs1 = map normal_probability rs2
       \<and> map irregular_probability rs1 = map irregular_probability rs2
       \<and> map confidence rs1 = map confidence rs2
       \<and> map rhythm_classification rs1 = map rhythm_classification rs2
       \<and> calls1 = calls2"
proof -
  have len: "length fs1 = length fs2" using same(1) by (rule map_eq_imp_length_eq)
  have X: "map model_features fs1 = map model_features fs2"
  proof (rule nth_equalityI)
    show "length (map model_features fs1) = length (map model_features fs2)" using len by simp
  next
    fix i assume "i < length (map model_features fs1)"
    then have i: "i < length fs1" "i < length fs2" using len by simp_all
    from same i have "mean_heart_rate (fs1 ! i) = mean_heart_rate (fs2 ! i)"
      "std_heart_rate (fs1 ! i) = std_heart_rate (fs2 ! i)"
      "pnn50 (fs1 ! i) = pnn50 (fs2 ! i)"
      by (metis nth_map)+
    then show "map model_features fs1 ! i = map model_features fs2 ! i"
      using i by (simp add: model_features_def)
  qed
  from run1 obtain m where m: "model = Some m" and rs1: "rs1 = map (result_of m) fs1"
    and c1: "calls1 = [PredictCall (map model_features fs1), PredictProbaCall (map model_features fs1)]"
    by (auto dest: predict_rhythm_Inr)
  from run2 m have rs2: "rs2 = map (result_of m) fs2"
    and c2: "calls2 = [PredictCall (map model_features fs2), PredictProbaCall (map model_features fs2)]"
    by (auto dest: predict_rhythm_Inr)
  have col: "map (g \<circ> model_features) fs1 = map (g \<circ> model_features) fs2" for g :: "model_input \<Rightarrow> 'b"
    using X by (metis map_map)
  have "map prediction rs1 = map prediction rs2"
    using col [of "predict m"] by (simp add: rs1 rs2 comp_def result_of_columns)
  moreover have "map normal_probability rs1 = map normal_probability rs2"
    using col [of "\<lambda>x. fst (predict_proba m x)"] by (simp add: rs1 rs2 comp_def result_of_columns)
  moreover have "map irregular_probability rs1 = map irregular_probability rs2"
    using col [of "\<lambda>x. snd (predict_proba m x)"] by (simp add: rs1 rs2 comp_def result_of_columns)
  moreover have "map confidence rs1 = map confidence rs2"
    using col [of "\<lambda>x. max (fst (predict_proba m x)) (snd (predict_proba m x))"]
    by (simp add: rs1 rs2 comp_def result_of_columns)
  moreover have "map rhythm_classification rs1 = map rhythm_classification rs2"
    using col [of "\<lambda>x. if predict m x = 0 then ''Normal'' else ''Irregular''"]
    by (simp add: rs1 rs2 comp_def result_of_columns)
  moreover have "calls1 = calls2" using X c1 c2 by simp
  ultimately show ?thesis by blast
qed

theorem prediction_depends_on_model_features_only_witness:
  "predict_rhythm (Some example_model) [example_features]
     = (Inr [result_of example_model example_features],
        [PredictCall [(95, 18.5, 0.37)], PredictProbaCall [(95, 18.5, 0.37)]])
   \<and> predict_rhythm (Some example_model) [example_features_other]
     = (Inr [result_of example_model example_features_other],
        [PredictCall [(95, 18.5, 0.37)], PredictProbaCall [(95, 18.5, 0.37)]])
   \<and> example_features \<noteq> example_features_other
   \<and> map prediction [result_of example_model example_features]
       = map prediction [result_of example_model example_features_other]
   \<and> map confidence [result_of example_model example_features]
       = map confidence [result_of example_model example_features_other]"
proof -
  have run1: "predict_rhythm (Some example_model) [example_features]
     = (Inr [result_of example_model example_features],
        [PredictCall [(95, 18.5, 0.37)], PredictProbaCall [(95, 18.5, 0.37)]])"
    by (simp add: predict_rhythm_def Let_def model_features_def example_features_def)
  have run2: "predict_rhythm (Some example_model) [example_features_other]
     = (Inr [result_of example_model example_features_other],
        [PredictCall [(95, 18.5, 0.37)], PredictProbaCall [(95, 18.5, 0.37)]])"
    by (simp add: predict_rhythm_def Let_def model_features_def example_features_other_def)
  have same: "map mean_heart_rate [example_features] = map mean_heart_rate [example_features_other]"
    "map std_heart_rate [example_features] = map std_heart_rate [example_features_other]"
    "map pnn50 [example_features] = map pnn50 [example_features_other]"
    by (simp_all add: example_features_def example_features_other_def)
  have ne: "example_features \<noteq> example_features_other"
    by (simp add: example_features_def example_features_other_def)
  from prediction_depends_on_model_features_only [OF same run1 run2] run1 run2 ne
  show ?thesis by blast
qed

section \<open>Properties of the report\<close>

lemma digit_char_simps:
  "digit_char 0 = CHR ''0''" "digit_char 1 = CHR ''1''" "digit_char 2 = CHR ''2''"
  "digit_char 3 = CHR ''3''" "digit_char 4 = CHR ''4''" "digit_char 5 = CHR ''5''"
  "digit_char 6 = CHR ''6''" "digit_char 7 = CHR ''7''" "digit_char 8 = CHR ''8''"
  "digit_char 9 = CHR ''9''"
  by (simp_all add: digit_char_def)

lemma str_nat_examples:
  "str_nat 0 = ''0''" "str_nat 8 = ''8''" "str_nat 24 = ''24''" "str_nat 72 = ''72''"
  by (simp_all add: str_nat.simps digit_char_simps)

lemma format_0f_72: "format_0f 72 = ''72''"
  by (simp add: format_0f_def round_half_even_def Let_def str_nat_examples)

lemma format_0f_725: "format_0f 72.5 = ''72''"
  by (simp add: format_0f_def round_half_even_def Let_def str_nat_examples)

text \<open>
  C7. The recommendation list is, in this order: the two follow-up advices when the label
  is \<^verbatim>\<open>Irregular\<close>, then the request for more recordings when moreover the confidence
  is below 0.7; the two data-quality tips when the quality score is below 0.5; and the
  two general reminders, which end every list. The list is a function of the result, so
  equal results give equal lists.
\<close>

theorem generate_recommendations_order:
  "generate_recommendations result =
     (if rhythm_classification result = ''Irregular''
      then [''Consult with a healthcare provider about irregular rhythm detection'',
            ''Continue regular monitoring with Apple Watch'']
           @ (if confidence result < 0.7
              then [''Consider additional ECG recordings for confirmation''] else [])
      else [])
     @ (if data_quality_score result < 0.5
        then [''Improve data quality by ensuring proper Apple Watch fit'',
              ''Take readings during rest periods for better accuracy'']
        else [])
     @ [''Maintain regular physical activity as recommended by your doctor'',
        ''Continue monitoring trends over time'']"
  by (simp add: generate_recommendations_def Let_def)

text \<open>
  C4, as stated, fails at the threshold: a \<^verbatim>\<open>Normal\<close> result of confidence exactly 0.8
  gets the low-confidence template, since the source compares with \<^verbatim>\<open>confidence > 0.8\<close>.
\<close>

theorem clinical_interpretation_boundary_counterexample:
  "confidence boundary_result = 0.8
   \<and> rhythm_classification boundary_result = ''Normal''
   \<and> generate_clinical_interpretation boundary_result
       = ''Likely normal rhythm, but consider additional monitoring. Heart rate 72 BPM.''
   \<and> generate_clinical_interpretation boundary_result
       \<noteq> ''High confidence normal rhythm detected. Heart rate 72 BPM within normal range.''"
  by (simp add: generate_clinical_interpretation_def Let_def boundary_result_def format_0f_72)

text \<open>
  C4, amended. The interpretation is one of four fixed templates around the mean rate
  printed with no decimals, selected by the pair (the label is \<^verbatim>\<open>Normal\<close>, the
  confidence is strictly above 0.8); the four templates differ, so the pair can be read
  off the text around the rate.
\<close>

theorem clinical_interpretation_template:
  "generate_clinical_interpretation result =
     fst (interpretation_template (rhythm_classification result = ''Normal'') (0.8 < confidence result))
       @ format_0f (mean_heart_rate result)
       @ snd (interpretation_template (rhythm_classification result = ''Normal'') (0.8 < confidence result))
   \<and> (interpretation_template n h = interpretation_template n' h') = (n = n' \<and> h = h')"
  by (cases n; cases h; cases n'; cases h')
     (simp_all add: generate_clinical_interpretation_def interpretation_template_def Let_def)

section \<open>Properties of the window\<close>

lemma series_max_Max:
  assumes "xs \<noteq> []"
  shows "series_max xs = Some (Max (set xs))"
proof (cases xs)
  case Nil
  with assms show ?thesis by simp
next
  case (Cons a list)
  have "Max (set (a # list)) = fold max list a" by (rule Max.set_eq_fold)
  with Cons show ?thesis by simp
qed

lemma py_max_Some: "py_max (Some a) (Some b) = Some (max a b)"
  by (simp add: py_max_def max_def)

lemma latest_time_Max:
  assumes "heart_rate_df \<noteq> []" "hrv_df \<noteq> []"
  shows "latest_time heart_rate_df hrv_df
           = Some (Max (set (map startDate heart_rate_df) \<union> set (map startDate hrv_df)))"
proof -
  have "Max (set (map startDate heart_rate_df) \<union> set (map startDate hrv_df))
          = max (Max (set (map startDate heart_rate_df))) (Max (set (map startDate hrv_df)))"
    using assms by (intro Max_Un) simp_all
  then show ?thesis
    using assms by (simp add: latest_time_def series_max_Max py_max_Some)
qed

text \<open>
  C1, as stated, fails: the reference time is the latest \<^verbatim>\<open>startDate\<close>, not the latest
  \<^verbatim>\<open>endDate\<close>. A sample that starts at 4000 and ends at 8000 gives the reference time
  4000 and, for a window of one hour, stays in the window; the interval counted back from the
  latest end time, 8000, holds no sample.
\<close>

theorem window_reference_counterexample:
  "latest_time long_hr [hrv_at 0 40 ''RMSSD''] = Some 4000
   \<and> Max (set (map endDate long_hr) \<union> set (map endDate [hrv_at 0 40 ''RMSSD''])) = 8000
   \<and> hr_window long_hr [hrv_at 0 40 ''RMSSD''] 1
       = [\<lparr> startDate = 4000, endDate = 8000, value' = 72, unit' = ''count/min'' \<rparr>]
   \<and> filter (\<lambda>s. 8000 - 3600 * 1 \<le> startDate s \<and> startDate s \<le> 8000) long_hr = []"
  by (simp add: latest_time_def hr_window_def start_time_def minus_hours_def in_window_def
        py_max_def long_hr_def hr_at_def hrv_at_def)

text \<open>
  C1, amended. For non-empty frames the reference time is the maximum \<^verbatim>\<open>startDate\<close>
  over both frames, the window starts that many hours before it, and the two windows are
  exactly the samples whose \<^verbatim>\<open>startDate\<close> lies in the closed interval between the two.
\<close>

theorem window_is_closed_interval:
  assumes "heart_rate_df \<noteq> []" "hrv_df \<noteq> []"
  shows "latest_time heart_rate_df hrv_df
           = Some (Max (set (map startDate heart_rate_df) \<union> set (map startDate hrv_df)))
       \<and> start_time heart_rate_df hrv_df h
           = Some (Max (set (map startDate heart_rate_df) \<union> set (map startDate hrv_df)) - 3600 * h)
       \<and> hr_window heart_rate_df hrv_df h
           = filter (\<lambda>s. Max (set (map startDate heart_rate_df) \<union> set (map startDate hrv_df)) - 3600 * h
                            \<le> startDate s
                        \<and> startDate s \<le> Max (set (map startDate heart_rate_df) \<union> set (map startDate hrv_df)))
               heart_rate_df
       \<and> hrv_window heart_rate_df hrv_df h
           = filter (\<lambda>s. Max (set (map startDate heart_rate_df) \<union> set (map startDate hrv_df)) - 3600 * h
                            \<le> startDate s
                        \<and> startDate s \<le> Max (set (map startDate heart_rate_df) \<union> set (map startDate hrv_df)))
               hrv_df"
  using latest_time_Max [OF assms]
  by (simp add: start_time_def minus_hours_def hr_window_def hrv_window_def in_window_def)

theorem window_is_closed_interval_witness:
  "tie_hr \<noteq> [] \<and> tie_hrv \<noteq> []
   \<and> latest_time tie_hr tie_hrv = Some 3600
   \<and> start_time tie_hr tie_hrv 1 = Some 0
   \<and> hr_window tie_hr tie_hrv 1 = [hr_at 0 70, hr_at 1800 71, hr_at 3600 72]
   \<and> hrv_window tie_hr tie_hrv 1 = [hrv_at 0 41 ''SDNN'']"
proof -
  have ne: "tie_hr \<noteq> []" "tie_hrv \<noteq> []" by (simp_all add: tie_hr_def tie_hrv_def)
  have M: "Max (set (map startDate tie_hr) \<union> set (map startDate tie_hrv)) = 3600"
    by (simp add: tie_hr_def tie_hrv_def hr_at_def hrv_at_def)
  have f1: "filter (\<lambda>s. 3600 - 3600 * 1 \<le> startDate s \<and> startDate s \<le> 3600) tie_hr
              = [hr_at 0 70, hr_at 1800 71, hr_at 3600 72]"
    by (simp add: tie_hr_def hr_at_def)
  have f2: "filter (\<lambda>s. 3600 - 3600 * 1 \<le> startDate s \<and> startDate s \<le> 3600) tie_hrv
              = [hrv_at 0 41 ''SDNN'']"
    by (simp add: tie_hrv_def hrv_at_def)
  from window_is_closed_interval [OF ne, of 1] show ?thesis
    unfolding M f1 f2 using ne by simp
qed

section \<open>Properties of ingestion and of the minimum-count check\<close>

lemma length_hr_window_le: "length (hr_window heart_rate_df hrv_df h) \<le> length heart_rate_df"
  by (simp add: hr_window_def)

lemma process_healthkit_heart_rate_Inr:
  "process_healthkit_heart_rate raw = Inr df \<Longrightarrow>
     raw \<noteq> [] \<and> df = sort_key startDate (validate_heart_rate_data raw)"
  by (auto simp: process_healthkit_heart_rate_def split: if_splits)

lemma process_healthkit_hrv_data_Inr:
  "process_healthkit_hrv_data raw = Inr df \<Longrightarrow>
     raw \<noteq> [] \<and> df = sort_key startDate (validate_hrv_data raw)"
  by (auto simp: process_healthkit_hrv_data_def split: if_splits)

lemma extract_features_insufficient:
  "length (hr_window heart_rate_df hrv_df h) < 10 \<Longrightarrow>
     extract_features heart_rate_df hrv_df h
       = Inl (ValueError (insufficient_message h (length (hr_window heart_rate_df hrv_df h))))"
  by (simp add: extract_features_def Let_def)

lemma pipeline_insufficient:
  assumes "process_healthkit_heart_rate heart_rate_data = Inr hr_df"
    and "process_healthkit_hrv_data hrv_data = Inr hrv_df"
    and "length (hr_window hr_df hrv_df h) < 10"
  shows "pipeline model heart_rate_data hrv_data h
           = (Inl (ValueError (insufficient_message h (length (hr_window hr_df hrv_df h)))), [])"
  using assms by (simp add: pipeline_def extract_features_insufficient)

lemma short_hr_window:
  "hr_window (sort_key startDate (validate_heart_rate_data short_hr))
             (sort_key startDate (validate_hrv_data [hrv_at 0 40 ''RMSSD''])) 24 = short_hr"
  by (simp add: short_hr_def hr_at_def hrv_at_def validate_heart_rate_data_def validate_hrv_data_def
       hr_window_def start_time_def latest_time_def minus_hours_def in_window_def py_max_def)

lemma insufficient_message_24_8:
  "insufficient_message 24 8 = ''Insufficient heart rate data in 24h window: 8 samples''"
  by (simp add: insufficient_message_def str_int_def str_nat_examples)

text \<open>
  C2, as stated, fails on what the error carries: with eight valid heart-rate samples and a
  window of 24 hours the run ends with a \<^verbatim>\<open>ValueError\<close> whose message names the window
  length and the observed count; the required minimum, 10, occurs nowhere in it.
\<close>

theorem insufficient_data_error_counterexample:
  "pipeline (Some example_model) short_hr [hrv_at 0 40 ''RMSSD''] 24
     = (Inl (ValueError ''Insufficient heart rate data in 24h window: 8 samples''), [])
   \<and> \<not> mentions ''10'' ''Insufficient heart rate data in 24h window: 8 samples''"
proof -
  have p1: "process_healthkit_heart_rate short_hr
              = Inr (sort_key startDate (validate_heart_rate_data short_hr))"
    by (simp add: process_healthkit_heart_rate_def short_hr_def)
  have p2: "process_healthkit_hrv_data [hrv_at 0 40 ''RMSSD'']
              = Inr (sort_key startDate (validate_hrv_data [hrv_at 0 40 ''RMSSD'']))"
    by (simp add: process_healthkit_hrv_data_def)
  have len: "length short_hr = 8" by (simp add: short_hr_def)
  have "pipeline (Some example_model) short_hr [hrv_at 0 40 ''RMSSD''] 24
     = (Inl (ValueError (insufficient_message 24 8)), [])"
    using pipeline_insufficient [OF p1 p2, of 24 "Some example_model"]
    by (simp add: short_hr_window len)
  moreover have "\<not> mentions ''10'' ''Insufficient heart rate data in 24h window: 8 samples''"
    by simp
  ultimately show ?thesis by (simp add: insufficient_message_24_8)
qed

text \<open>
  C2, amended. When both lists were ingested and the heart-rate window holds fewer than 10
  samples, the run ends with the \<^verbatim>\<open>ValueError\<close> whose message carries the window length
  in hours and the observed count, and it makes no call to the model pipeline.
\<close>

theorem insufficient_data_stops_pipeline:
  assumes "process_healthkit_heart_rate heart_rate_data = Inr hr_df"
    and "process_healthkit_hrv_data hrv_data = Inr hrv_df"
    and "length (hr_window hr_df hrv_df h) < 10"
  shows "pipeline model heart_rate_data hrv_data h
           = (Inl (ValueError (''Insufficient heart rate data in '' @ str_int h @ ''h window: ''
                   @ str_nat (length (hr_window hr_df hrv_df h)) @ '' samples'')), [])"
  using pipeline_insufficient [OF assms] by (simp add: insufficient_message_def)

theorem insufficient_data_stops_pipeline_witness:
  "process_healthkit_heart_rate short_hr = Inr short_hr
   \<and> process_healthkit_hrv_data [hrv_at 0 40 ''RMSSD''] = Inr [hrv_at 0 40 ''RMSSD'']
   \<and> length (hr_window short_hr [hrv_at 0 40 ''RMSSD''] 2) = 8
   \<and> pipeline None short_hr [hrv_at 0 40 ''RMSSD''] 2
       = (Inl (ValueError ''Insufficient heart rate data in 2h window: 8 samples''), [])"
proof -
  have p1: "process_healthkit_heart_rate short_hr = Inr short_hr"
    by (simp add: process_healthkit_heart_rate_def short_hr_def hr_at_def validate_heart_rate_data_def)
  have p2: "process_healthkit_hrv_data [hrv_at 0 40 ''RMSSD''] = Inr [hrv_at 0 40 ''RMSSD'']"
    by (simp add: process_healthkit_hrv_data_def hrv_at_def validate_hrv_data_def)
  have len: "length (hr_window short_hr [hrv_at 0 40 ''RMSSD''] 2) = 8"
    by (simp add: short_hr_def hr_at_def hrv_at_def
       hr_window_def start_time_def latest_time_def minus_hours_def in_window_def py_max_def)
  then have lt: "length (hr_window short_hr [hrv_at 0 40 ''RMSSD''] 2) < 10" by simp
  have s: "str_int 2 = ''2''" by (simp add: str_int_def str_nat.simps digit_char_simps)
  from insufficient_data_stops_pipeline [OF p1 p2 lt, of None] p1 p2 len
  show ?thesis by (simp add: s str_nat_examples)
qed

lemma str_int_24: "str_int 24 = ''24''"
  by (simp add: str_int_def str_nat_examples)

text \<open>
  C5. Ingestion raises its error exactly when the raw list is empty. When the list is not
  empty and the range filter removes every sample, ingestion returns the empty frame; the
  failure comes from \<^verbatim>\<open>extract_features\<close>, as the minimum-count error with a count
  of 0, and the run then ends with that error.
\<close>

theorem empty_input_error_only_for_empty_list:
  "(process_healthkit_heart_rate raw = Inl (ValueError ''No heart rate data provided'')) = (raw = [])
   \<and> ((\<exists>e. process_healthkit_heart_rate raw = Inl e) = (raw = []))
   \<and> (process_healthkit_hrv_data raw_hrv = Inl (ValueError ''No HRV data provided'')) = (raw_hrv = [])
   \<and> ((\<exists>e. process_healthkit_hrv_data raw_hrv = Inl e) = (raw_hrv = []))
   \<and> (raw \<noteq> [] \<and> validate_heart_rate_data raw = [] \<longrightarrow>
         process_healthkit_heart_rate raw = Inr []
         \<and> extract_features [] hrv_df h
             = Inl (ValueError (''Insufficient heart rate data in '' @ str_int h @ ''h window: 0 samples''))
         \<and> (raw_hrv \<noteq> [] \<longrightarrow>
               pipeline model raw raw_hrv h
                 = (Inl (ValueError (''Insufficient heart rate data in '' @ str_int h
                                       @ ''h window: 0 samples'')), [])))"
proof -
  have a: "(process_healthkit_heart_rate raw = Inl (ValueError ''No heart rate data provided'')) = (raw = [])"
    by (simp add: process_healthkit_heart_rate_def)
  have b: "(\<exists>e. process_healthkit_heart_rate raw = Inl e) = (raw = [])"
    by (simp add: process_healthkit_heart_rate_def)
  have c: "(process_healthkit_hrv_data raw_hrv = Inl (ValueError ''No HRV data provided'')) = (raw_hrv = [])"
    by (simp add: process_healthkit_hrv_data_def)
  have d: "(\<exists>e. process_healthkit_hrv_data raw_hrv = Inl e) = (raw_hrv = [])"
    by (simp add: process_healthkit_hrv_data_def)
  have w: "hr_window [] df h = []" for df
    by (simp add: hr_window_def)
  have m: "insufficient_message h 0 = ''Insufficient heart rate data in '' @ str_int h @ ''h window: 0 samples''"
    by (simp add: insufficient_message_def str_nat_examples)
  have e: "extract_features [] df h
             = Inl (ValueError (''Insufficient heart rate data in '' @ str_int h @ ''h window: 0 samples''))" for df
    using extract_features_insufficient [of "[]" df h] by (simp add: w m)
  have f: "process_healthkit_heart_rate raw = Inr []"
    if "raw \<noteq> []" "validate_heart_rate_data raw = []"
    using that by (simp add: process_healthkit_heart_rate_def)
  have g: "pipeline model raw raw_hrv h
             = (Inl (ValueError (''Insufficient heart rate data in '' @ str_int h
                                   @ ''h window: 0 samples'')), [])"
    if "raw \<noteq> []" "validate_heart_rate_data raw = []" "raw_hrv \<noteq> []"
    using that e by (simp add: pipeline_def process_healthkit_heart_rate_def process_healthkit_hrv_data_def)
  from a b c d e f g show ?thesis by blast
qed

theorem empty_input_error_only_for_empty_list_witness:
  "out_of_range_hr \<noteq> [] \<and> validate_heart_rate_data out_of_range_hr = []
   \<and> process_healthkit_heart_rate out_of_range_hr = Inr []
   \<and> pipeline (Some example_model) out_of_range_hr [hrv_at 0 40 ''RMSSD''] 24
       = (Inl (ValueError ''Insufficient heart rate data in 24h window: 0 samples''), [])
   \<and> process_healthkit_heart_rate [] = Inl (ValueError ''No heart rate data provided'')"
proof -
  have ne: "out_of_range_hr \<noteq> []" by (simp add: out_of_range_hr_def)
  have v: "validate_heart_rate_data out_of_range_hr = []"
    by (simp add: out_of_range_hr_def validate_heart_rate_data_def hr_at_def)
  have ne2: "[hrv_at 0 40 ''RMSSD''] \<noteq> []" by simp
  from empty_input_error_only_for_empty_list
         [of out_of_range_hr "[hrv_at 0 40 ''RMSSD'']" "[]" 24 "Some example_model"]
       empty_input_error_only_for_empty_list [of "[]" "[]" "[]" 24 None]
       ne v ne2
  show ?thesis by (simp add: str_int_24)
qed

lemma sum_list_lower: "\<forall>x \<in> set xs. c \<le> x \<Longrightarrow> c * real (length xs) \<le> sum_list xs"
  by (induction xs) (auto simp: algebra_simps)

lemma mean_lower:
  assumes "xs \<noteq> []" "\<forall>x \<in> set xs. c \<le> x"
  shows "c \<le> mean xs"
proof -
  have n: "0 < real (length xs)" using assms(1) by simp
  have "c * real (length xs) \<le> sum_list xs" using assms(2) by (rule sum_list_lower)
  then show ?thesis unfolding mean_def using n by (simp add: pos_le_divide_eq)
qed

lemma extract_features_Inr_length:
  "extract_features heart_rate_df hrv_df h = Inr rows \<Longrightarrow> 10 \<le> length (hr_window heart_rate_df hrv_df h)"
  by (simp add: extract_features_def Let_def split: if_splits)

lemma hr_window_validated:
  assumes "process_healthkit_heart_rate raw = Inr hr_df" "s \<in> set (hr_window hr_df hrv_df h)"
  shows "30 \<le> value' s \<and> value' s \<le> 250"
proof -
  from assms(1) have "hr_df = sort_key startDate (validate_heart_rate_data raw)"
    by (simp add: process_healthkit_heart_rate_Inr)
  then have "set hr_df = set (validate_heart_rate_data raw)" by simp
  moreover from assms(2) have "s \<in> set hr_df" by (simp add: hr_window_def)
  ultimately show ?thesis by (simp add: validate_heart_rate_data_def)
qed

text \<open>
  C8. When the heart-rate frame comes from ingestion and \<^verbatim>\<open>extract_features\<close> gets
  past its minimum-count check, so that the data-quality score is computed, the window
  has more than one sample and the mean of its values is at least 30: the divisor of the
  coefficient of variation is positive, and the quotient is an ordinary number.
\<close>

theorem coefficient_of_variation_safe:
  assumes proc: "process_healthkit_heart_rate raw = Inr hr_df"
    and reached: "extract_features hr_df hrv_df h = Inr rows"
  shows "1 < length (hr_window hr_df hrv_df h)
       \<and> 30 \<le> mean (map value' (hr_window hr_df hrv_df h))
       \<and> 0 < mean (map value' (hr_window hr_df hrv_df h))
       \<and> coefficient_of_variation (map value' (hr_window hr_df hrv_df h))
           = Some (std (map value' (hr_window hr_df hrv_df h))
                     / mean (map value' (hr_window hr_df hrv_df h)))"
proof -
  from reached have len: "10 \<le> length (hr_window hr_df hrv_df h)"
    by (rule extract_features_Inr_length)
  then have ne: "map value' (hr_window hr_df hrv_df h) \<noteq> []" by auto
  have "\<forall>x \<in> set (map value' (hr_window hr_df hrv_df h)). 30 \<le> x"
    using hr_window_validated [OF proc] by auto
  with ne have m: "30 \<le> mean (map value' (hr_window hr_df hrv_df h))" by (rule mean_lower)
  then have "mean (map value' (hr_window hr_df hrv_df h)) \<noteq> 0" by simp
  then have "coefficient_of_variation (map value' (hr_window hr_df hrv_df h))
           = Some (std (map value' (hr_window hr_df hrv_df h))
                     / mean (map value' (hr_window hr_df hrv_df h)))"
    by (simp add: coefficient_of_variation_def)
  with len m show ?thesis by simp
qed

lemma steady_hr_window:
  "hr_window steady_hr [hrv_at 0 40 ''RMSSD''] 24 = steady_hr"
  by (simp add: steady_hr_def hr_at_def hrv_at_def
       hr_window_def start_time_def latest_time_def minus_hours_def in_window_def py_max_def)

lemma steady_hr_mean: "mean (map value' steady_hr) = 68"
  by (simp add: steady_hr_def hr_at_def mean_def)

theorem coefficient_of_variation_safe_witness:
  "process_healthkit_heart_rate steady_hr = Inr steady_hr
   \<and> (\<exists>rows. extract_features steady_hr [hrv_at 0 40 ''RMSSD''] 24 = Inr rows)
   \<and> length (hr_window steady_hr [hrv_at 0 40 ''RMSSD''] 24) = 12
   \<and> mean (map value' (hr_window steady_hr [hrv_at 0 40 ''RMSSD''] 24)) = 68
   \<and> coefficient_of_variation (map value' (hr_window steady_hr [hrv_at 0 40 ''RMSSD''] 24))
       = Some (std (map value' steady_hr) / 68)"
proof -
  have proc: "process_healthkit_heart_rate steady_hr = Inr steady_hr"
    by (simp add: process_healthkit_heart_rate_def steady_hr_def hr_at_def validate_heart_rate_data_def)
  have len: "length steady_hr = 12" by (simp add: steady_hr_def)
  obtain rows where reached: "extract_features steady_hr [hrv_at 0 40 ''RMSSD''] 24 = Inr rows"
    by (simp add: extract_features_def Let_def steady_hr_window len)
  from coefficient_of_variation_safe [OF proc reached] proc reached len
  show ?thesis by (auto simp: steady_hr_window steady_hr_mean)
qed

section \<open>Properties of the data-quality score\<close>

lemma score_unfold:
  "calculate_data_quality_score hr_df hrv_df =
     min 1 ((if 50 \<le> length hr_df then 0.4 else if 20 \<le> length hr_df then 0.2 else 0)
          + (if 5 \<le> length hrv_df then 0.3 else if 1 \<le> length hrv_df then 0.1 else 0)
          + (if 1 < length hr_df then
               (case coefficient_of_variation (map value' hr_df) of
                  None \<Rightarrow> 0
                | Some cv \<Rightarrow> if cv < 0.3 then 0.3 else if cv < 0.5 then 0.1 else 0)
             else 0))"
  by (simp add: calculate_data_quality_score_def Let_def split: option.split)

lemma score_bounds:
  "0 \<le> calculate_data_quality_score hr_df hrv_df \<and> calculate_data_quality_score hr_df hrv_df \<le> 1"
  unfolding score_unfold by (simp split: option.split)

lemma score_mono_count:
  assumes "length hr_df \<le> length hr_df'"
    and "1 < length hr_df \<longrightarrow>
           coefficient_of_variation (map value' hr_df') = coefficient_of_variation (map value' hr_df)"
  shows "calculate_data_quality_score hr_df hrv_df \<le> calculate_data_quality_score hr_df' hrv_df"
proof (cases "1 < length hr_df")
  case True
  with assms have "1 < length hr_df'"
    "coefficient_of_variation (map value' hr_df') = coefficient_of_variation (map value' hr_df)"
    by auto
  with True assms(1) show ?thesis
    unfolding score_unfold by (simp split: option.split)
next
  case False
  with assms(1) show ?thesis
    unfolding score_unfold by (simp split: option.split)
qed

lemma score_mono_cv:
  assumes "length hr_df' = length hr_df"
    and "coefficient_of_variation (map value' hr_df') = Some c'"
    and "\<forall>c. coefficient_of_variation (map value' hr_df) = Some c \<longrightarrow> c' \<le> c"
  shows "calculate_data_quality_score hr_df hrv_df \<le> calculate_data_quality_score hr_df' hrv_df"
  using assms unfolding score_unfold by (auto split: option.split)

text \<open>
  C3. The data-quality score lies between 0 and 1. With the same secondary window and the
  same coefficient of variation, a primary window with at least as many samples scores at
  least as much (a window of at most one sample has no coefficient of variation, and any
  larger window scores at least as much). With the same counts, a primary window whose
  coefficient of variation is a number no greater than the other's scores at least as much.
\<close>

theorem data_quality_score_bounded_monotone:
  "0 \<le> calculate_data_quality_score hr_df hrv_df
   \<and> calculate_data_quality_score hr_df hrv_df \<le> 1
   \<and> (length hr_df \<le> length hr_df'
        \<and> (1 < length hr_df \<longrightarrow>
              coefficient_of_variation (map value' hr_df') = coefficient_of_variation (map value' hr_df))
       \<longrightarrow> calculate_data_quality_score hr_df hrv_df \<le> calculate_data_quality_score hr_df' hrv_df)
   \<and> (length hr_df'' = length hr_df
        \<and> coefficient_of_variation (map value' hr_df'') = Some c'
        \<and> (\<forall>c. coefficient_of_variation (map value' hr_df) = Some c \<longrightarrow> c' \<le> c)
       \<longrightarrow> calculate_data_quality_score hr_df hrv_df \<le> calculate_data_quality_score hr_df'' hrv_df)"
  using score_bounds [of hr_df hrv_df] score_mono_count [of hr_df hr_df' hrv_df]
    score_mono_cv [of hr_df'' hr_df c' hrv_df]
  by blast

lemma std_nonneg: "0 \<le> std xs"
proof -
  have "0 \<le> sum_list (map (\<lambda>x. (x - mean xs)\<^sup>2) xs)"
    by (rule sum_list_nonneg) auto
  then show ?thesis by (simp add: std_def)
qed

lemma value_hr_at: "value' (hr_at t v) = v"
  by (simp add: hr_at_def)

lemma cv_replicate:
  "0 < n \<Longrightarrow> coefficient_of_variation (replicate n 68) = Some 0"
  by (simp add: coefficient_of_variation_def mean_def std_def sum_list_replicate)

lemma score_replicate_2: "calculate_data_quality_score (replicate 2 (hr_at 0 68)) [] = 3/10"
  unfolding score_unfold by (simp add: cv_replicate value_hr_at)

lemma score_replicate_20: "calculate_data_quality_score (replicate 20 (hr_at 0 68)) [] = 1/2"
  unfolding score_unfold by (simp add: cv_replicate value_hr_at)

lemma cv_swinging: "coefficient_of_variation (map value' swinging_hr) = Some c \<Longrightarrow> 0 \<le> c"
proof -
  assume "coefficient_of_variation (map value' swinging_hr) = Some c"
  then have c: "c = std (map value' swinging_hr) / mean (map value' swinging_hr)"
    by (auto simp: coefficient_of_variation_def split: if_splits)
  have "mean (map value' swinging_hr) = 140"
    by (simp add: mean_def swinging_hr_def hr_at_def)
  with std_nonneg [of "map value' swinging_hr"] c show ?thesis by simp
qed

theorem data_quality_score_bounded_monotone_witness:
  "calculate_data_quality_score (replicate 2 (hr_at 0 68)) [] = 3/10
   \<and> calculate_data_quality_score (replicate 20 (hr_at 0 68)) [] = 1/2
   \<and> calculate_data_quality_score (replicate 2 (hr_at 0 68)) []
       \<le> calculate_data_quality_score (replicate 20 (hr_at 0 68)) []
   \<and> calculate_data_quality_score swinging_hr []
       \<le> calculate_data_quality_score (replicate 2 (hr_at 0 68)) []"
proof -
  have l1: "length (replicate 2 (hr_at 0 68)) \<le> length (replicate 20 (hr_at 0 68))" by simp
  have c1: "1 < length (replicate 2 (hr_at 0 68)) \<longrightarrow>
              coefficient_of_variation (map value' (replicate 20 (hr_at 0 68)))
                = coefficient_of_variation (map value' (replicate 2 (hr_at 0 68)))"
    by (simp add: cv_replicate value_hr_at)
  have l2: "length (replicate 2 (hr_at 0 68)) = length swinging_hr" by (simp add: swinging_hr_def)
  have c2: "coefficient_of_variation (map value' (replicate 2 (hr_at 0 68))) = Some 0"
    by (simp add: cv_replicate value_hr_at)
  have c3: "\<forall>c. coefficient_of_variation (map value' swinging_hr) = Some c \<longrightarrow> 0 \<le> c"
    using cv_swinging by blast
  from data_quality_score_bounded_monotone
         [of "replicate 2 (hr_at 0 68)" "[]" "replicate 20 (hr_at 0 68)" "replicate 2 (hr_at 0 68)" 0]
       data_quality_score_bounded_monotone
         [of swinging_hr "[]" swinging_hr "replicate 2 (hr_at 0 68)" 0]
       l1 c1 l2 c2 c3
  show ?thesis by (simp add: score_replicate_2 score_replicate_20)
qed

section \<open>Properties of the variability proxy\<close>

lemma rmssd_curve_bounds:
  "0 \<le> estimate_pnn50_from_rmssd x \<and> estimate_pnn50_from_rmssd x \<le> 0.6"
  unfolding estimate_pnn50_from_rmssd_def by (auto simp: min_def max_def)

lemma rmssd_curve_mono:
  assumes "x \<le> y"
  shows "estimate_pnn50_from_rmssd x \<le> estimate_pnn50_from_rmssd y"
proof (cases "x < 0")
  case True
  then have "estimate_pnn50_from_rmssd x = 0" by (simp add: estimate_pnn50_from_rmssd_def)
  with rmssd_curve_bounds [of y] show ?thesis by simp
next
  case False
  then have x: "0 \<le> x / 150" and y: "0 \<le> y / 150" using assms by simp_all
  have "x / 150 \<le> y / 150" using assms by simp
  with x have "(x / 150) powr 1.5 \<le> (y / 150) powr 1.5" by (intro powr_mono2) simp_all
  then have "min 0.6 (max 0 ((x / 150) powr 1.5)) \<le> min 0.6 (max 0 ((y / 150) powr 1.5))"
    by (simp add: min_def max_def)
  moreover have "\<not> x / 150 < 0" "\<not> y / 150 < 0" using x y by simp_all
  ultimately show ?thesis unfolding estimate_pnn50_from_rmssd_def by (simp only: if_False)
qed

lemma rmssd_curve_saturates:
  assumes "150 \<le> x"
  shows "estimate_pnn50_from_rmssd x = 0.6"
proof -
  have "1 \<le> x / 150" using assms by simp
  then have "1 \<le> (x / 150) powr 1.5" by (intro ge_one_powr_ge_zero) simp_all
  moreover have "\<not> x / 150 < 0" using assms by simp
  ultimately show ?thesis unfolding estimate_pnn50_from_rmssd_def by (simp add: min_def max_def)
qed

lemma rmssd_curve_floor: "x \<le> 0 \<Longrightarrow> estimate_pnn50_from_rmssd x = 0"
  by (cases "x = 0") (simp_all add: estimate_pnn50_from_rmssd_def)

lemma hr_std_curve_bounds:
  "0 \<le> estimate_pnn50_from_hr_std x \<and> estimate_pnn50_from_hr_std x \<le> 0.4"
  unfolding estimate_pnn50_from_hr_std_def by (auto simp: min_def max_def)

lemma hr_std_curve_mono: "x \<le> y \<Longrightarrow> estimate_pnn50_from_hr_std x \<le> estimate_pnn50_from_hr_std y"
  by (simp add: estimate_pnn50_from_hr_std_def min_def max_def)

lemma hr_std_curve_saturates: "20 \<le> x \<Longrightarrow> estimate_pnn50_from_hr_std x = 0.4"
  by (simp add: estimate_pnn50_from_hr_std_def min_def max_def)

lemma hr_std_curve_floor: "x \<le> 0 \<Longrightarrow> estimate_pnn50_from_hr_std x = 0"
  by (simp add: estimate_pnn50_from_hr_std_def min_def max_def)

lemma extract_features_row:
  assumes "extract_features heart_rate_df hrv_df h = Inr rows"
  shows "\<exists>row. rows = [row]
     \<and> pnn50 row =
         (if filter (\<lambda>s. type' s = ''RMSSD'') (hrv_window heart_rate_df hrv_df h) \<noteq> []
          then estimate_pnn50_from_rmssd
                 (mean (map value' (filter (\<lambda>s. type' s = ''RMSSD'') (hrv_window heart_rate_df hrv_df h))))
          else estimate_pnn50_from_hr_std (std (map value' (hr_window heart_rate_df hrv_df h))))"
  using assms by (auto simp: extract_features_def Let_def split: if_splits)

text \<open>
  C6. The feature frame has one row. Its \<^verbatim>\<open>pnn50\<close> is the first estimator at the mean
  of the \<^verbatim>\<open>RMSSD\<close> samples of the secondary window when there is at least one, and
  otherwise the second estimator at the standard deviation of the primary window. The
  first estimator stays in [0, 0.6], the second in [0, 0.4]; both are non-decreasing, 0
  up to the argument 0, and constant at their upper bound from 150 and from 20 on.
\<close>

theorem pnn50_estimator_selection:
  assumes "extract_features heart_rate_df hrv_df h = Inr rows"
  shows "(\<exists>row. rows = [row]
           \<and> pnn50 row =
               (if filter (\<lambda>s. type' s = ''RMSSD'') (hrv_window heart_rate_df hrv_df h) \<noteq> []
                then estimate_pnn50_from_rmssd
                       (mean (map value' (filter (\<lambda>s. type' s = ''RMSSD'')
                                            (hrv_window heart_rate_df hrv_df h))))
                else estimate_pnn50_from_hr_std (std (map value' (hr_window heart_rate_df hrv_df h)))))
       \<and> (\<forall>x. 0 \<le> estimate_pnn50_from_rmssd x \<and> estimate_pnn50_from_rmssd x \<le> 0.6)
       \<and> (\<forall>x y. x \<le> y \<longrightarrow> estimate_pnn50_from_rmssd x \<le> estimate_pnn50_from_rmssd y)
       \<and> (\<forall>x. x \<le> 0 \<longrightarrow> estimate_pnn50_from_rmssd x = 0)
       \<and> (\<forall>x. 150 \<le> x \<longrightarrow> estimate_pnn50_from_rmssd x = 0.6)
       \<and> (\<forall>x. 0 \<le> estimate_pnn50_from_hr_std x \<and> estimate_pnn50_from_hr_std x \<le> 0.4)
       \<and> (\<forall>x y. x \<le> y \<longrightarrow> estimate_pnn50_from_hr_std x \<le> estimate_pnn50_from_hr_std y)
       \<and> (\<forall>x. x \<le> 0 \<longrightarrow> estimate_pnn50_from_hr_std x = 0)
       \<and> (\<forall>x. 20 \<le> x \<longrightarrow> estimate_pnn50_from_hr_std x = 0.4)"
  using extract_features_row [OF assms] rmssd_curve_bounds rmssd_curve_mono rmssd_curve_floor
    rmssd_curve_saturates hr_std_curve_bounds hr_std_curve_mono hr_std_curve_floor
    hr_std_curve_saturates
  by blast

lemma steady_windows:
  "hr_window steady_hr [hrv_at 0 v k] 24 = steady_hr"
  "hrv_window steady_hr [hrv_at 0 v k] 24 = [hrv_at 0 v k]"
  by (simp_all add: steady_hr_def hr_at_def hrv_at_def hr_window_def hrv_window_def
       start_time_def latest_time_def minus_hours_def in_window_def py_max_def)

lemma steady_hr_std: "std (map value' steady_hr) = 0"
  by (simp add: std_def steady_hr_mean) (simp add: steady_hr_def hr_at_def)

theorem pnn50_estimator_selection_witness:
  "(\<exists>row. extract_features steady_hr [hrv_at 0 150 ''RMSSD''] 24 = Inr [row] \<and> pnn50 row = 0.6)
   \<and> (\<exists>row. extract_features steady_hr [hrv_at 0 150 ''SDNN''] 24 = Inr [row] \<and> pnn50 row = 0)"
proof -
  have len: "length steady_hr = 12" by (simp add: steady_hr_def)
  obtain rows1 where r1: "extract_features steady_hr [hrv_at 0 150 ''RMSSD''] 24 = Inr rows1"
    by (simp add: extract_features_def Let_def steady_windows len)
  obtain rows2 where r2: "extract_features steady_hr [hrv_at 0 150 ''SDNN''] 24 = Inr rows2"
    by (simp add: extract_features_def Let_def steady_windows len)
  have k1: "filter (\<lambda>s. type' s = ''RMSSD'') [hrv_at 0 150 ''RMSSD''] = [hrv_at 0 150 ''RMSSD'']"
    by (simp add: hrv_at_def)
  have k2: "filter (\<lambda>s. type' s = ''RMSSD'') [hrv_at 0 150 ''SDNN''] = []"
    by (simp add: hrv_at_def)
  have m: "mean (map value' [hrv_at 0 150 ''RMSSD'']) = 150"
    by (simp add: mean_def hrv_at_def)
  have "\<exists>row. rows1 = [row] \<and> pnn50 row = estimate_pnn50_from_rmssd 150"
    using conjunct1 [OF pnn50_estimator_selection [OF r1]] unfolding steady_windows k1 m by simp
  then obtain row1 where row1: "rows1 = [row1]" "pnn50 row1 = 0.6"
    using rmssd_curve_saturates [of 150] by auto
  have "\<exists>row. rows2 = [row] \<and> pnn50 row = estimate_pnn50_from_hr_std 0"
    using conjunct1 [OF pnn50_estimator_selection [OF r2]] unfolding steady_windows k2 steady_hr_std
    by simp
  then obtain row2 where row2: "rows2 = [row2]" "pnn50 row2 = 0"
    using hr_std_curve_floor [of 0] by auto
  from row1 row2 r1 r2 show ?thesis by simp
qed

end
